theory Spec2Isabelle
  imports Complex_Main
begin

section \<open>Data model of the scene (src/lib/scene/index.ts, second version)\<close>

text \<open>
  The source file holds two versions of the class \<open>Scene\<close>; the one modelled here is the
  later, more complete one (panning, stars, force-count events), lines 316 to 723.

  JavaScript numbers are modelled as real numbers: there is no rounding, no \<open>NaN\<close> and
  no infinity, and division by zero is the HOL value \<open>0\<close> where the source yields
  \<open>NaN\<close> or an infinity. Statements about a division carry the hypothesis that the
  divisor is not zero.

  The fields \<open>x\<close> and \<open>y\<close> of the source are called \<open>px\<close> and \<open>py\<close>. The images of
  the entities and every drawing call are left out: they are read by the renderer only.
\<close>

record position =
  px :: real
  py :: real

record circle = position +
  radius :: real

record ball = circle +
  vx :: real
  vy :: real

record wall = position +
  width :: real
  height :: real

record force = position +
  direction :: int

text \<open>The level, as the constructor, \<open>reset\<close> and \<open>clear\<close> read it.\<close>

record level =
  level_id :: int
  level_ball :: circle
  level_hole :: circle
  level_stars :: "circle list"
  level_walls :: "wall list"
  defaultGravity :: "position list"
  defaultAntigravity :: "position list"

text \<open>The canvas element: its pixel size and \<open>style.cursor\<close>.\<close>

record canvas =
  canvas_width :: real
  canvas_height :: real
  cursor :: string

record mouse_start = position +
  button :: nat

text \<open>
  Force objects are shared between the array \<open>forces\<close> and \<open>mouseCurrent.force\<close>, and are
  mutated through either; so they live in a store and are named by reference.
\<close>

type_synonym ref = nat

record mouse_current = position +
  force :: "ref option"

text \<open>The target of \<open>goto\<close>: \<open>/levels\<close> or \<open>/levels/n\<close>.\<close>

datatype route = Levels | LevelsId int

text \<open>The listeners the scene registers on window, document and canvas.\<close>

datatype listener = Resize | Keydown | Mousedown | Mousemove | Mouseup | Contextmenu

text \<open>
  The state: the fields of the class, the store of force objects, and what the scene
  reads from and writes to its host (device pixel ratio, registered listeners, scheduled
  animation frames, the observers of the event dispatcher, and the log of emitted
  force-count events, alerts and navigations).
\<close>

record scene =
  previousTime :: "real option"
  frame :: "nat option"
  center :: position
  mouseStart :: "mouse_start option"
  mouseCurrent :: "mouse_current option"
  hit :: bool
  forces :: "ref list"
  ball :: ball
  hole :: circle
  stars :: "circle list"
  walls :: "wall list"
  canvas :: canvas
  level :: level
  store :: "ref \<Rightarrow> force"
  next_ref :: ref
  devicePixelRatio :: real
  listeners :: "listener set"
  pending :: "nat set"
  next_frame :: nat
  observers :: "nat set"
  emitted :: "(nat \<times> nat) list"
  alerts :: "string list"
  navigations :: "route list"

text \<open>
  The imports of the module that are not part of the modelled file and that the
  specification does not fix: the collision detector, the normalisation of a wall, and
  the number of levels (\<open>levels.length\<close>). They are parameters of the model.
\<close>

record deps =
  collision :: "ball \<Rightarrow> wall \<Rightarrow> real option"
  normalizeShape :: "wall \<Rightarrow> canvas \<Rightarrow> position \<Rightarrow> wall"
  levels_length :: nat

section \<open>Constants and helpers\<close>

definition MAX_DISTANCE :: real where
  "MAX_DISTANCE = 800"

definition MAX_VELOCITY :: real where
  "MAX_VELOCITY = 500"

text \<open>
  \<open>FORCE_RADIUS\<close> is imported from \<open>./force/radius\<close>; its value is the one the first
  version of the class declares in the same file (line 20).
\<close>

definition FORCE_RADIUS :: real where
  "FORCE_RADIUS = 30"

text \<open>
  Modelled from the spec: \<open>normalizePoint\<close> (\<open>./normalize/point\<close>) is missing from the
  sources. Section 4.1: \<open>screen.x = surface.width/2 + world.x + center.x\<close>,
  \<open>screen.y = surface.height/2 - world.y - center.y\<close>. The other fields of the entity are
  kept.
\<close>

definition normalizePoint ::
  "'a position_scheme \<Rightarrow> canvas \<Rightarrow> position \<Rightarrow> 'a position_scheme" where
  "normalizePoint p cv c =
     p\<lparr>px := canvas_width cv / 2 + px p + px c,
       py := canvas_height cv / 2 - py p - py c\<rparr>"

text \<open>
  Modelled from the spec: \<open>distance\<close> and \<open>distanceSquared\<close> (\<open>./distance\<close>,
  \<open>./distance/squared\<close>) are missing from the sources; they are the Euclidean distance
  of two points and its square.
\<close>

definition distanceSquared :: "'a position_scheme \<Rightarrow> 'b position_scheme \<Rightarrow> real" where
  "distanceSquared a b = (px a - px b)\<^sup>2 + (py a - py b)\<^sup>2"

definition distance :: "'a position_scheme \<Rightarrow> 'b position_scheme \<Rightarrow> real" where
  "distance a b = sqrt ((px a - px b)\<^sup>2 + (py a - py b)\<^sup>2)"

text \<open>
  Modelled from the spec: \<open>splitHypotenuse\<close> (\<open>./split/hypotenuse\<close>) is missing from the
  sources. Section 4.2: given two points, their distance and a magnitude, the vector of
  that magnitude pointing from the first point toward the second,
  \<open>(dx/distance * magnitude, dy/distance * magnitude)\<close>.
\<close>

definition splitHypotenuse ::
  "'a position_scheme \<Rightarrow> 'b position_scheme \<Rightarrow> real \<Rightarrow> real \<Rightarrow> position" where
  "splitHypotenuse a b dst magnitude =
     \<lparr>px = (px b - px a) / dst * magnitude,
      py = (py b - py a) / dst * magnitude\<rparr>"

text \<open>
  Modelled from the spec: \<open>clamp\<close> (\<open>./clamp\<close>) is missing from the sources. Section 4.2:
  the value is clamped to the range given by the first two arguments.
\<close>

definition clamp :: "real \<Rightarrow> real \<Rightarrow> real \<Rightarrow> real" where
  "clamp lo hi v = min hi (max lo v)"

text \<open>
  \<open>Math.atan2\<close> on real numbers: the angle in \<open>(-\<pi>, \<pi>]\<close> of the point \<open>(b, a)\<close>, and
  \<open>0\<close> at the origin.
\<close>

definition atan2 :: "real \<Rightarrow> real \<Rightarrow> real" where
  "atan2 a b =
     (if 0 < b then arctan (a / b)
      else if b < 0 then (if 0 \<le> a then arctan (a / b) + pi else arctan (a / b) - pi)
      else if 0 < a then pi / 2
      else if a < 0 then - (pi / 2)
      else 0)"

text \<open>The pointer position of a mouse event, in device pixels.\<close>

definition mouse_of :: "scene \<Rightarrow> real \<Rightarrow> real \<Rightarrow> position" where
  "mouse_of s offsetX offsetY =
     \<lparr>px = of_int \<lfloor>offsetX * devicePixelRatio s\<rfloor>,
      py = of_int \<lfloor>offsetY * devicePixelRatio s\<rfloor>\<rparr>"

section \<open>Notification, reset and clear\<close>

definition mouseOnForce :: "scene \<Rightarrow> position \<Rightarrow> force \<Rightarrow> bool" where
  "mouseOnForce s mouse f \<longleftrightarrow>
     distance (normalizePoint f (canvas s) (center s)) mouse \<le> FORCE_RADIUS"

definition updateCursor :: "position \<Rightarrow> scene \<Rightarrow> scene" where
  "updateCursor mouse s =
     s\<lparr>canvas := (canvas s)\<lparr>cursor :=
          (if list_ex (\<lambda>r. mouseOnForce s mouse (store s r)) (forces s)
           then ''move'' else '''')\<rparr>\<rparr>"

text \<open>
  The counts that \<open>dispatchForces\<close> computes: slot 0 counts the forces whose direction
  is 1, slot 1 all the others.
\<close>

definition force_counts :: "force list \<Rightarrow> nat \<times> nat" where
  "force_counts fs =
     foldl (\<lambda>remaining f.
              if direction f = 1 then (fst remaining + 1, snd remaining)
              else (fst remaining, snd remaining + 1))
           (0, 0) fs"

text \<open>
  Modelled from the spec: the class \<open>EventDispatcher\<close> is missing from the sources.
  \<open>dispatchEvent\<close> is a record in the log \<open>emitted\<close>; \<open>removeAllEventListeners\<close> empties
  the set of observers.
\<close>

definition dispatchForces :: "scene \<Rightarrow> scene" where
  "dispatchForces s =
     s\<lparr>emitted := emitted s @ [force_counts (map (store s) (forces s))]\<rparr>"

definition removeAllEventListeners :: "scene \<Rightarrow> scene" where
  "removeAllEventListeners s = s\<lparr>observers := {}\<rparr>"

definition reset :: "scene \<Rightarrow> scene" where
  "reset s =
     s\<lparr>hit := False,
       ball := \<lparr>px = px (level_ball (level s)), py = py (level_ball (level s)),
                radius = radius (level_ball (level s)), vx = 0, vy = 0\<rparr>\<rparr>"

text \<open>
  The array literal of \<open>clear\<close>: the objects it creates, in order. Both maps write
  \<open>direction: 1\<close>.
\<close>

definition default_forces :: "level \<Rightarrow> force list" where
  "default_forces l =
     map (\<lambda>f. \<lparr>px = px f, py = py f, direction = 1\<rparr>) (defaultGravity l) @
     map (\<lambda>f. \<lparr>px = px f, py = py f, direction = 1\<rparr>) (defaultAntigravity l)"

text \<open>Fresh objects take the next free references of the store.\<close>

definition allocate :: "force list \<Rightarrow> scene \<Rightarrow> scene" where
  "allocate fs s =
     s\<lparr>store := (\<lambda>r. if next_ref s \<le> r \<and> r < next_ref s + length fs
                       then fs ! (r - next_ref s) else store s r),
       next_ref := next_ref s + length fs\<rparr>"

definition clear :: "scene \<Rightarrow> scene" where
  "clear s =
     (let s1 = reset s;
          fs = default_forces (level s1);
          s2 = (allocate fs s1)\<lparr>forces := [next_ref s1 ..< next_ref s1 + length fs]\<rparr>
      in dispatchForces s2)"

text \<open>
  \<open>addForce\<close> pushes a new object; \<open>dir\<close> is the parameter \<open>direction\<close>, of type
  \<open>1 | -1\<close> in the source and any integer here.
\<close>

definition addForce :: "position \<Rightarrow> int \<Rightarrow> scene \<Rightarrow> scene" where
  "addForce p dir s =
     (let dpr = devicePixelRatio s;
          f = \<lparr>px = px p * dpr + FORCE_RADIUS - canvas_width (canvas s) / 2 - px (center s),
               py = - py p * dpr - FORCE_RADIUS + canvas_height (canvas s) / 2 - py (center s),
               direction = dir\<rparr>;
          s1 = (allocate [f] s)\<lparr>forces := forces s @ [next_ref s]\<rparr>;
          s2 = dispatchForces s1
      in s2\<lparr>canvas := (canvas s2)\<lparr>cursor := ''move''\<rparr>\<rparr>)"

section \<open>The frame callback\<close>

text \<open>
  \<open>this.frame = requestAnimationFrame(this.tick)\<close>: the host hands out a fresh handle
  (never zero) and remembers it as scheduled. \<open>cancelAnimationFrame\<close> forgets a handle,
  and does nothing for one that is not scheduled.
\<close>

definition requestAnimationFrame :: "scene \<Rightarrow> scene" where
  "requestAnimationFrame s =
     s\<lparr>frame := Some (next_frame s),
       pending := insert (next_frame s) (pending s),
       next_frame := next_frame s + 1\<rparr>"

definition cancelAnimationFrame :: "nat \<Rightarrow> scene \<Rightarrow> scene" where
  "cancelAnimationFrame h s = s\<lparr>pending := pending s - {h}\<rparr>"

text \<open>The body of \<open>if (angle !== null)\<close> in the loop over the walls.\<close>

definition bounce :: "real \<Rightarrow> ball \<Rightarrow> ball" where
  "bounce angle b =
     (let v = atan2 (- vy b) (vx b);
          bounceAngle = 2 * angle - v + pi;
          speed = sqrt ((vy b)\<^sup>2 + (vx b)\<^sup>2)
      in b\<lparr>vy := - sin bounceAngle * speed, vx := cos bounceAngle * speed\<rparr>)"

definition wall_step :: "deps \<Rightarrow> scene \<Rightarrow> wall \<Rightarrow> scene" where
  "wall_step d s w =
     (case collision d (normalizePoint (ball s) (canvas s) (center s))
                       (normalizeShape d w (canvas s) (center s)) of
        None \<Rightarrow> s
      | Some angle \<Rightarrow> s\<lparr>ball := bounce angle (ball s)\<rparr>)"

text \<open>The vector \<open>{x, y}\<close> that the loop over the forces computes for one force.\<close>

definition force_acceleration :: "scene \<Rightarrow> force \<Rightarrow> position" where
  "force_acceleration s f =
     (let rSquared = distanceSquared (normalizePoint (ball s) (canvas s) (center s))
                                     (normalizePoint f (canvas s) (center s))
      in splitHypotenuse (normalizePoint f (canvas s) (center s))
                         (normalizePoint (ball s) (canvas s) (center s))
                         (sqrt rSquared)
                         (clamp (- 5000) 5000 (of_int (direction f) * 100000000 / rSquared)))"

definition force_step :: "real \<Rightarrow> scene \<Rightarrow> ref \<Rightarrow> scene" where
  "force_step delta s r =
     (let a = force_acceleration s (store s r)
      in s\<lparr>ball := (ball s)\<lparr>vx := vx (ball s) + px a * delta,
                             vy := vy (ball s) + py a * delta\<rparr>\<rparr>)"

text \<open>The test of the inner \<open>if\<close> of \<open>tick\<close>, and its body up to the \<open>return\<close>.\<close>

definition in_hole :: "scene \<Rightarrow> bool" where
  "in_hole s \<longleftrightarrow>
     distance (normalizePoint (ball s) (canvas s) (center s))
              (normalizePoint (hole s) (canvas s) (center s))
       \<le> radius (hole s) - radius (ball s)"

definition win :: "deps \<Rightarrow> scene \<Rightarrow> scene" where
  "win d s =
     s\<lparr>alerts := alerts s @ [''Congratulations!''],
       navigations := navigations s @
         [if level_id (level s) = int (levels_length d) then Levels
          else LevelsId (level_id (level s) + 1)]\<rparr>"

text \<open>The end of \<open>tick\<close>: the position update and the next request (drawing left out).\<close>

definition integrate :: "real \<Rightarrow> scene \<Rightarrow> scene" where
  "integrate delta s =
     requestAnimationFrame
       (s\<lparr>ball := (ball s)\<lparr>px := px (ball s) + vx (ball s) * delta,
                             py := py (ball s) - vy (ball s) * delta\<rparr>\<rparr>)"

text \<open>
  \<open>this.previousTime || currentTime\<close> takes \<open>currentTime\<close> when \<open>previousTime\<close> is
  \<open>null\<close> or \<open>0\<close>.
\<close>

definition tick :: "deps \<Rightarrow> real \<Rightarrow> scene \<Rightarrow> scene" where
  "tick d time s =
     (let s1 = s\<lparr>frame := None\<rparr>;
          currentTime = time / 1000;
          delta = currentTime -
            (case previousTime s1 of
               None \<Rightarrow> currentTime
             | Some t \<Rightarrow> if t = 0 then currentTime else t);
          s2 = s1\<lparr>previousTime := Some currentTime\<rparr>
      in if hit s2 then
           (if in_hole s2 then win d s2
            else integrate delta
                   (foldl (force_step delta) (foldl (wall_step d) s2 (walls s2)) (forces s2)))
         else integrate delta s2)"

section \<open>Pointer and keyboard handlers\<close>

definition down :: "real \<Rightarrow> real \<Rightarrow> nat \<Rightarrow> scene \<Rightarrow> scene" where
  "down offsetX offsetY btn s =
     (let mouse = mouse_of s offsetX offsetY;
          f = find (\<lambda>r. distance (normalizePoint (store s r) (canvas s) (center s)) mouse
                          \<le> FORCE_RADIUS) (forces s)
      in s\<lparr>mouseStart := Some \<lparr>px = px mouse, py = py mouse, button = btn\<rparr>,
           mouseCurrent := Some \<lparr>px = px mouse, py = py mouse, force = f\<rparr>\<rparr>)"

definition drag :: "position \<Rightarrow> mouse_current \<Rightarrow> scene \<Rightarrow> scene" where
  "drag mouse mc s =
     (let s1 =
        (case force mc of
           Some r \<Rightarrow>
             s\<lparr>store := (store s)(r := (store s r)
                  \<lparr>px := px (store s r) + (px mouse - px mc),
                   py := py (store s r) - (py mouse - py mc)\<rparr>)\<rparr>
         | None \<Rightarrow>
             s\<lparr>center := (center s)
                  \<lparr>px := px (center s) + (px mouse - px mc),
                   py := py (center s) - (py mouse - py mc)\<rparr>\<rparr>)
      in s1\<lparr>mouseCurrent := Some (mc\<lparr>px := px mouse, py := py mouse\<rparr>)\<rparr>)"

definition move :: "real \<Rightarrow> real \<Rightarrow> scene \<Rightarrow> scene" where
  "move offsetX offsetY s =
     (let mouse = mouse_of s offsetX offsetY;
          s1 = (case mouseStart s of
                  None \<Rightarrow> s
                | Some ms \<Rightarrow>
                    (case mouseCurrent s of
                       None \<Rightarrow> s
                     | Some mc \<Rightarrow> if button ms = 0 then drag mouse mc s else s))
      in updateCursor mouse s1)"

text \<open>The branch \<open>// Hit the ball\<close> of \<open>up\<close>.\<close>

definition hit_the_ball :: "position \<Rightarrow> scene \<Rightarrow> scene" where
  "hit_the_ball mouse s =
     (let s1 = s\<lparr>hit := True\<rparr>;
          normalizedBall = normalizePoint (ball s1) (canvas s1) (center s1);
          distanceFactor = distance mouse normalizedBall;
          v = splitHypotenuse mouse normalizedBall distanceFactor
                (min (distanceFactor / MAX_DISTANCE) 1 * MAX_VELOCITY)
      in s1\<lparr>ball := (ball s1)\<lparr>vx := px v, vy := py v\<rparr>\<rparr>)"

text \<open>
  The branch \<open>// Remove force\<close> of \<open>up\<close>, for the force object \<open>r\<close> of the gesture.
  \<open>indexOf\<close> finds the first entry that is this object, \<open>splice\<close> removes that entry.
\<close>

definition remove_force :: "position \<Rightarrow> ref \<Rightarrow> scene \<Rightarrow> scene" where
  "remove_force mouse r s =
     (if r \<in> set (forces s)
      then updateCursor mouse (dispatchForces (s\<lparr>forces := remove1 r (forces s)\<rparr>))
      else s)"

definition up :: "real \<Rightarrow> real \<Rightarrow> scene \<Rightarrow> scene" where
  "up offsetX offsetY s =
     (if hit s then s
      else case mouseStart s of
        None \<Rightarrow> s
      | Some ms \<Rightarrow>
          (let mouse = mouse_of s offsetX offsetY;
               s1 =
                 (if button ms = 0 \<and> px mouse = px ms \<and> py mouse = py ms
                  then hit_the_ball mouse s
                  else if button ms = 2 then
                    (case mouseCurrent s of
                       None \<Rightarrow> s
                     | Some mc \<Rightarrow>
                         (case force mc of
                            None \<Rightarrow> s
                          | Some r \<Rightarrow>
                              if mouseOnForce s mouse (store s r)
                              then remove_force mouse r s else s))
                  else s)
           in s1\<lparr>mouseStart := None, mouseCurrent := None\<rparr>))"

definition key :: "string \<Rightarrow> scene \<Rightarrow> scene" where
  "key k s = (if k = '' '' then reset s else s)"

section \<open>Construction and teardown\<close>

definition addEventListener :: "listener \<Rightarrow> scene \<Rightarrow> scene" where
  "addEventListener l s = s\<lparr>listeners := insert l (listeners s)\<rparr>"

definition removeEventListener :: "listener \<Rightarrow> scene \<Rightarrow> scene" where
  "removeEventListener l s = s\<lparr>listeners := listeners s - {l}\<rparr>"

text \<open>
  The constructor, for a canvas of the size that \<open>resize\<close> gives it and a host with the
  device pixel ratio \<open>dpr\<close>. The fields declared \<open>undefined as never\<close> start with
  placeholders, which the constructor overwrites.
\<close>

definition construct :: "canvas \<Rightarrow> real \<Rightarrow> level \<Rightarrow> scene" where
  "construct cv dpr l =
     (let s0 = \<lparr>previousTime = None, frame = None, center = \<lparr>px = 0, py = 0\<rparr>,
                mouseStart = None, mouseCurrent = None, hit = False, forces = [],
                ball = \<lparr>px = 0, py = 0, radius = 0, vx = 0, vy = 0\<rparr>,
                hole = \<lparr>px = 0, py = 0, radius = 0\<rparr>, stars = [], walls = [],
                canvas = cv, level = l,
                store = (\<lambda>r. \<lparr>px = 0, py = 0, direction = 0\<rparr>), next_ref = 0,
                devicePixelRatio = dpr, listeners = {}, pending = {}, next_frame = 1,
                observers = {}, emitted = [], alerts = [], navigations = []\<rparr>;
          s1 = clear s0;
          s2 = s1\<lparr>hole := level_hole l, stars := level_stars l, walls := level_walls l\<rparr>;
          s3 = addEventListener Resize s2;
          s4 = addEventListener Keydown s3;
          s5 = addEventListener Mousedown s4;
          s6 = addEventListener Mousemove s5;
          s7 = addEventListener Mouseup s6;
          s8 = addEventListener Contextmenu s7
      in requestAnimationFrame s8)"

text \<open>\<open>if (this.frame)\<close> is false for \<open>null\<close> and for \<open>0\<close>.\<close>

definition destroy :: "scene \<Rightarrow> scene" where
  "destroy s =
     (let s1 = removeAllEventListeners s;
          s2 = removeEventListener Resize s1;
          s3 = removeEventListener Keydown s2;
          s4 = removeEventListener Mousedown s3;
          s5 = removeEventListener Mousemove s4;
          s6 = removeEventListener Mouseup s5
      in case frame s6 of
           None \<Rightarrow> s6
         | Some h \<Rightarrow> if h \<noteq> 0 then cancelAnimationFrame h s6 else s6)"

section \<open>The host: events and scheduled frames\<close>

text \<open>
  What the host can send to the scene. A callback runs only while its listener is
  registered, and a frame only while its handle is scheduled. The resize listener sets
  the canvas to the size the event carries; the context-menu listener only calls
  \<open>preventDefault\<close>.
\<close>

datatype event =
    ResizeEvent real real
  | KeydownEvent string
  | MousedownEvent real real nat
  | MousemoveEvent real real
  | MouseupEvent real real
  | ContextmenuEvent
  | FrameEvent nat real

fun fires :: "event \<Rightarrow> scene \<Rightarrow> bool" where
  "fires (ResizeEvent w h) s \<longleftrightarrow> Resize \<in> listeners s"
| "fires (KeydownEvent k) s \<longleftrightarrow> Keydown \<in> listeners s"
| "fires (MousedownEvent ox oy b) s \<longleftrightarrow> Mousedown \<in> listeners s"
| "fires (MousemoveEvent ox oy) s \<longleftrightarrow> Mousemove \<in> listeners s"
| "fires (MouseupEvent ox oy) s \<longleftrightarrow> Mouseup \<in> listeners s"
| "fires ContextmenuEvent s \<longleftrightarrow> Contextmenu \<in> listeners s"
| "fires (FrameEvent h t) s \<longleftrightarrow> h \<in> pending s"

fun handle :: "deps \<Rightarrow> event \<Rightarrow> scene \<Rightarrow> scene" where
  "handle d (ResizeEvent w h) s =
     s\<lparr>canvas := (canvas s)\<lparr>canvas_width := w, canvas_height := h\<rparr>\<rparr>"
| "handle d (KeydownEvent k) s = key k s"
| "handle d (MousedownEvent ox oy b) s = down ox oy b s"
| "handle d (MousemoveEvent ox oy) s = move ox oy s"
| "handle d (MouseupEvent ox oy) s = up ox oy s"
| "handle d ContextmenuEvent s = s"
| "handle d (FrameEvent h t) s = tick d t (s\<lparr>pending := pending s - {h}\<rparr>)"

definition deliver :: "deps \<Rightarrow> event \<Rightarrow> scene \<Rightarrow> scene" where
  "deliver d e s = (if fires e s then handle d e s else s)"

text \<open>
  The states a scene can be in: built by the constructor, then changed by delivered
  events and by calls of its public methods.
\<close>

inductive reachable :: "deps \<Rightarrow> scene \<Rightarrow> bool" for d :: deps where
  constructed: "reachable d (construct cv dpr l)"
| delivered: "reachable d s \<Longrightarrow> reachable d (deliver d e s)"
| called_reset: "reachable d s \<Longrightarrow> reachable d (reset s)"
| called_clear: "reachable d s \<Longrightarrow> reachable d (clear s)"
| called_addForce: "reachable d s \<Longrightarrow> reachable d (addForce p dir s)"
| called_destroy: "reachable d s \<Longrightarrow> reachable d (destroy s)"

section \<open>An example scene\<close>

text \<open>
  A canvas of 800 by 600 pixels, a device pixel ratio of 1, and a level with one default
  attractive force at \<open>(-100, 0)\<close> and one default repulsive force at \<open>(100, 100)\<close>.
\<close>

definition demo_canvas :: canvas where
  "demo_canvas = \<lparr>canvas_width = 800, canvas_height = 600, cursor = ''''\<rparr>"

definition demo_level :: level where
  "demo_level =
     \<lparr>level_id = 1,
      level_ball = \<lparr>px = 0, py = 0, radius = 10\<rparr>,
      level_hole = \<lparr>px = 300, py = 0, radius = 20\<rparr>,
      level_stars = [],
      level_walls = [\<lparr>px = 100, py = 50, width = 20, height = 100\<rparr>],
      defaultGravity = [\<lparr>px = - 100, py = 0\<rparr>],
      defaultAntigravity = [\<lparr>px = 100, py = 100\<rparr>]\<rparr>"

definition demo_scene :: scene where
  "demo_scene = construct demo_canvas 1 demo_level"

definition demo_deps :: deps where
  "demo_deps = \<lparr>collision = (\<lambda>b w. None), normalizeShape = (\<lambda>w cv c. w), levels_length = 3\<rparr>"

text \<open>
  The example scene with the ball in motion to the right, and a collision detector that
  reports the contact angle 0 for every wall.
\<close>

definition demo_moving :: scene where
  "demo_moving =
     demo_scene\<lparr>hit := True, ball := \<lparr>px = 0, py = 0, radius = 10, vx = 3, vy = 0\<rparr>\<rparr>"

definition demo_wall_deps :: deps where
  "demo_wall_deps =
     \<lparr>collision = (\<lambda>b w. Some 0), normalizeShape = (\<lambda>w cv c. w), levels_length = 3\<rparr>"

text \<open>
  The example scene with the ball in motion and inside the hole, and the example scene
  after a press of the primary button at the left edge of the canvas, 400 pixels from
  the ball.
\<close>

definition demo_in_hole :: scene where
  "demo_in_hole =
     demo_scene\<lparr>hit := True, ball := \<lparr>px = 300, py = 0, radius = 10, vx = 3, vy = 0\<rparr>\<rparr>"

definition demo_pressed :: scene where
  "demo_pressed = down 0 300 0 demo_scene"

text \<open>
  The example scene after a press of the secondary button on the first force, whose
  normalised centre is \<open>(300, 300)\<close>.
\<close>

definition demo_right_pressed :: scene where
  "demo_right_pressed = down 300 300 2 demo_scene"

section \<open>Facts about the helpers\<close>

lemma force_counts_all_1_aux:
  "\<forall>f \<in> set fs. direction f = 1 \<Longrightarrow>
   foldl (\<lambda>remaining f.
            if direction f = 1 then (fst remaining + 1, snd remaining)
            else (fst remaining, snd remaining + 1)) acc fs
     = (fst acc + length fs, snd acc)"
  by (induction fs arbitrary: acc) auto

lemma force_counts_all_1:
  assumes "\<forall>f \<in> set fs. direction f = 1"
  shows "force_counts fs = (length fs, 0)"
  unfolding force_counts_def using force_counts_all_1_aux[OF assms, of "(0, 0)"] by simp

lemma store_allocate:
  "map (store (allocate fs s)) [next_ref s ..< next_ref s + length fs] = fs"
  by (rule nth_equalityI) (auto simp: allocate_def)

lemma default_forces_direction: "\<forall>f \<in> set (default_forces l). direction f = 1"
  by (auto simp: default_forces_def)

lemma length_default_forces:
  "length (default_forces l) = length (defaultGravity l) + length (defaultAntigravity l)"
  by (simp add: default_forces_def)

lemma level_demo_scene: "level demo_scene = demo_level"
  by (simp add: demo_scene_def construct_def Let_def clear_def reset_def allocate_def
      dispatchForces_def addEventListener_def requestAnimationFrame_def)

section \<open>clear\<close>

lemma clear_ball: "ball (clear s) = ball (reset s) \<and> hit (clear s) = False"
  by (simp add: clear_def Let_def dispatchForces_def reset_def allocate_def)

lemma clear_forces:
  "map (store (clear s)) (forces (clear s)) = default_forces (level s)"
  using store_allocate[of "default_forces (level s)" "reset s"]
  by (simp add: clear_def Let_def dispatchForces_def reset_def)

lemma clear_emitted_aux:
  "emitted (clear s) = emitted s @ [force_counts (map (store (clear s)) (forces (clear s)))]"
  by (simp add: clear_def Let_def dispatchForces_def reset_def allocate_def)

lemma clear_emitted:
  "emitted (clear s) =
   emitted s @ [(length (defaultGravity (level s)) + length (defaultAntigravity (level s)), 0)]"
  by (simp add: clear_emitted_aux clear_forces force_counts_all_1[OF default_forces_direction]
        length_default_forces)

text \<open>
  C1. The claim: \<open>clear\<close> re-initialises the ball and replaces the forces with the
  level's defaults, each default repulsive force with direction \<open>-1\<close>, and emits the
  counts of attractive and repulsive defaults. The code differs: on the example level
  (one attractive and one repulsive default) both new forces have direction \<open>1\<close>, and
  the notification is \<open>(2, 0)\<close>, not \<open>(1, 1)\<close>.
\<close>

theorem clear_gives_antigravity_direction_1:
  "map (store (clear demo_scene)) (forces (clear demo_scene)) =
     [\<lparr>px = - 100, py = 0, direction = 1\<rparr>, \<lparr>px = 100, py = 100, direction = 1\<rparr>] \<and>
   emitted (clear demo_scene) = emitted demo_scene @ [(2, 0)]"
  by (simp add: clear_forces clear_emitted level_demo_scene)
     (simp add: demo_level_def default_forces_def)

section \<open>reset\<close>

text \<open>
  C9. \<open>reset\<close> puts the ball back to the level's position and radius with velocity zero
  and sets \<open>hit\<close> to false; the forces (the array and the objects), the pan centre, the
  hole, the walls and the stars are unchanged, and nothing is emitted.
\<close>

theorem reset_only_ball:
  "hit (reset s) = False \<and>
   ball (reset s) = \<lparr>px = px (level_ball (level s)), py = py (level_ball (level s)),
                     radius = radius (level_ball (level s)), vx = 0, vy = 0\<rparr> \<and>
   forces (reset s) = forces s \<and> store (reset s) = store s \<and>
   center (reset s) = center s \<and> hole (reset s) = hole s \<and>
   walls (reset s) = walls s \<and> stars (reset s) = stars s \<and>
   emitted (reset s) = emitted s"
  by (simp add: reset_def)

section \<open>Pointer up\<close>

text \<open>
  C7. A pointer-up that arrives while \<open>hit\<close> is true returns at once: the whole state is
  unchanged, so the ball, the forces, the pan centre, the log of notifications, and also
  \<open>mouseStart\<close> and \<open>mouseCurrent\<close> are what they were.
\<close>

theorem up_while_hit_is_noop:
  "hit s \<Longrightarrow> up offsetX offsetY s = s"
  by (simp add: up_def)

theorem up_while_hit_is_noop_witness:
  "hit (demo_scene\<lparr>hit := True\<rparr>) \<and>
   up 5 5 (demo_scene\<lparr>hit := True\<rparr>) = demo_scene\<lparr>hit := True\<rparr>"
  using up_while_hit_is_noop[of "demo_scene\<lparr>hit := True\<rparr>" 5 5] by simp

section \<open>destroy\<close>

lemma destroy_alt:
  "destroy s =
     s\<lparr>observers := {},
       listeners := listeners s - {Resize, Keydown, Mousedown, Mousemove, Mouseup},
       pending := (case frame s of None \<Rightarrow> pending s
                   | Some h \<Rightarrow> if h \<noteq> 0 then pending s - {h} else pending s)\<rparr>"
proof -
  have L: "listeners s - {Resize} - {Keydown} - {Mousedown} - {Mousemove} - {Mouseup} =
           listeners s - {Resize, Keydown, Mousedown, Mousemove, Mouseup}"
    by blast
  show ?thesis
    by (simp add: destroy_def Let_def removeAllEventListeners_def removeEventListener_def
        cancelAnimationFrame_def L split: option.split)
qed

lemma destroy_idempotent: "destroy (destroy s) = destroy s"
proof -
  have L: "\<And>A. A - {Resize, Keydown, Mousedown, Mousemove, Mouseup}
                 - {Resize, Keydown, Mousedown, Mousemove, Mouseup}
            = A - {Resize, Keydown, Mousedown, Mousemove, Mouseup}"
    by blast
  show ?thesis
  proof (cases "frame s")
    case None
    then show ?thesis by (simp add: destroy_alt L)
  next
    case (Some h)
    then show ?thesis by (cases "h = 0") (simp_all add: destroy_alt L)
  qed
qed

lemma destroy_unregisters:
  "listeners (destroy s) = listeners s - {Resize, Keydown, Mousedown, Mousemove, Mouseup}"
  by (simp add: destroy_alt)

lemma destroy_cancels:
  "frame s = Some h \<Longrightarrow> h \<noteq> 0 \<Longrightarrow> pending (destroy s) = pending s - {h}"
  by (simp add: destroy_alt)

text \<open>
  C8. The claim: after \<open>destroy\<close> every listener registered by the constructor is
  unregistered and no callback of the scene fires. The code differs: the constructor
  registers the context-menu listener and \<open>destroy\<close> does not remove it, so a
  context-menu event still reaches the scene after \<open>destroy\<close>, and after a second
  \<open>destroy\<close> too.
\<close>

theorem destroy_keeps_contextmenu_listener:
  "Contextmenu \<in> listeners (destroy (construct cv dpr l)) \<and>
   fires ContextmenuEvent (destroy (construct cv dpr l)) \<and>
   fires ContextmenuEvent (destroy (destroy (construct cv dpr l)))"
proof -
  have "Contextmenu \<in> listeners (construct cv dpr l)"
    by (simp add: construct_def Let_def addEventListener_def requestAnimationFrame_def)
  then show ?thesis
    by (simp add: destroy_idempotent destroy_unregisters)
qed

section \<open>Facts about distances, vectors and angles\<close>

lemma distance_sqrt: "distance a b = sqrt (distanceSquared a b)"
  by (simp add: distance_def distanceSquared_def)

lemma distanceSquared_commute: "distanceSquared a b = distanceSquared b a"
  by (simp add: distanceSquared_def power2_commute)

lemma distance_normalizePoint:
  "distance (normalizePoint p cv c) (normalizePoint q cv c) = distance p q"
proof -
  have "(py q - py p)\<^sup>2 = (py p - py q)\<^sup>2" by (simp add: power2_commute)
  then show ?thesis by (simp add: distance_def normalizePoint_def)
qed

lemma sqrt_scaled_unit:
  assumes "c\<^sup>2 + k\<^sup>2 = 1"
  shows "sqrt ((c * m)\<^sup>2 + (k * m)\<^sup>2) = \<bar>m\<bar>"
proof -
  have "(c * m)\<^sup>2 + (k * m)\<^sup>2 = (c\<^sup>2 + k\<^sup>2) * m\<^sup>2"
    by (simp add: power_mult_distrib distrib_right)
  then show ?thesis using assms by simp
qed

lemma splitHypotenuse_magnitude:
  assumes "distanceSquared a b \<noteq> 0"
  shows "sqrt ((px (splitHypotenuse a b (sqrt (distanceSquared a b)) m))\<^sup>2 +
               (py (splitHypotenuse a b (sqrt (distanceSquared a b)) m))\<^sup>2) = \<bar>m\<bar>"
proof -
  let ?r = "sqrt (distanceSquared a b)"
  have nn: "0 \<le> distanceSquared a b" by (simp add: distanceSquared_def)
  have r2: "?r\<^sup>2 = distanceSquared a b" using nn by simp
  have "((px b - px a) / ?r)\<^sup>2 + ((py b - py a) / ?r)\<^sup>2 =
        ((px b - px a)\<^sup>2 + (py b - py a)\<^sup>2) / ?r\<^sup>2"
    by (simp add: power_divide add_divide_distrib)
  also have "(px b - px a)\<^sup>2 + (py b - py a)\<^sup>2 = distanceSquared a b"
    by (simp add: distanceSquared_def power2_commute)
  finally have "((px b - px a) / ?r)\<^sup>2 + ((py b - py a) / ?r)\<^sup>2 = 1"
    using r2 assms by simp
  then have "sqrt (((px b - px a) / ?r * m)\<^sup>2 + ((py b - py a) / ?r * m)\<^sup>2) = \<bar>m\<bar>"
    by (rule sqrt_scaled_unit)
  then show ?thesis by (simp add: splitHypotenuse_def)
qed

lemma clamp_bound: "lo \<le> hi \<Longrightarrow> lo \<le> clamp lo hi v \<and> clamp lo hi v \<le> hi"
  by (simp add: clamp_def)

lemma atan2_horizontal: "sin (atan2 0 b) = 0 \<and> cos (atan2 0 b) * \<bar>b\<bar> = b"
  by (simp add: atan2_def)

section \<open>The bounce off a wall\<close>

lemma bounce_velocity:
  "vx (bounce a b) =
     cos (2 * a - atan2 (- vy b) (vx b) + pi) * sqrt ((vx b)\<^sup>2 + (vy b)\<^sup>2) \<and>
   vy (bounce a b) =
     - sin (2 * a - atan2 (- vy b) (vx b) + pi) * sqrt ((vx b)\<^sup>2 + (vy b)\<^sup>2)"
  by (simp add: bounce_def Let_def add.commute)

lemma bounce_speed:
  "sqrt ((vx (bounce a b))\<^sup>2 + (vy (bounce a b))\<^sup>2) = sqrt ((vx b)\<^sup>2 + (vy b)\<^sup>2)"
proof -
  let ?t = "2 * a - atan2 (- vy b) (vx b) + pi"
  let ?s = "sqrt ((vx b)\<^sup>2 + (vy b)\<^sup>2)"
  have "sqrt ((cos ?t * ?s)\<^sup>2 + (sin ?t * ?s)\<^sup>2) = \<bar>?s\<bar>"
    by (rule sqrt_scaled_unit) (simp add: add.commute)
  moreover have "(- sin ?t * ?s)\<^sup>2 = (sin ?t * ?s)\<^sup>2" by simp
  ultimately show ?thesis using bounce_velocity[of a b] by simp
qed

lemma bounce_horizontal:
  assumes "sin a = 0" "vy b = 0"
  shows "vx (bounce a b) = - vx b \<and> vy (bounce a b) = 0"
proof -
  let ?v = "atan2 0 (vx b)"
  have c2: "cos (2 * a) = 1" and s2: "sin (2 * a) = 0"
    using assms(1) by (simp_all add: cos_double sin_double cos_squared_eq)
  have sp: "sqrt ((vx b)\<^sup>2 + (vy b)\<^sup>2) = \<bar>vx b\<bar>" using assms(2) by simp
  have "cos (2 * a - ?v + pi) = - cos ?v"
    using c2 s2 by (simp add: cos_diff)
  moreover have "sin (2 * a - ?v + pi) = sin ?v"
    using c2 s2 by (simp add: sin_diff)
  ultimately show ?thesis
    using bounce_velocity[of a b] atan2_horizontal[of "vx b"] assms(2) sp by simp
qed

text \<open>
  C4. When the collision detector reports the angle \<open>a\<close> for a wall, the new velocity is
  \<open>(cos t * s, - sin t * s)\<close> with \<open>t = 2 * a - atan2 (- vy) vx + \<pi>\<close> and
  \<open>s = sqrt (vx\<^sup>2 + vy\<^sup>2)\<close>; the speed after the bounce is the speed before it, for every
  angle; and a ball moving horizontally that meets a horizontal normal (\<open>sin a = 0\<close>)
  leaves with \<open>(- vx, 0)\<close>.
\<close>

theorem wall_bounce_preserves_speed:
  assumes "collision d (normalizePoint (ball s) (canvas s) (center s))
                       (normalizeShape d w (canvas s) (center s)) = Some a"
  shows "vx (ball (wall_step d s w)) =
           cos (2 * a - atan2 (- vy (ball s)) (vx (ball s)) + pi) *
           sqrt ((vx (ball s))\<^sup>2 + (vy (ball s))\<^sup>2) \<and>
         vy (ball (wall_step d s w)) =
           - sin (2 * a - atan2 (- vy (ball s)) (vx (ball s)) + pi) *
           sqrt ((vx (ball s))\<^sup>2 + (vy (ball s))\<^sup>2) \<and>
         sqrt ((vx (ball (wall_step d s w)))\<^sup>2 + (vy (ball (wall_step d s w)))\<^sup>2) =
           sqrt ((vx (ball s))\<^sup>2 + (vy (ball s))\<^sup>2) \<and>
         (sin a = 0 \<and> vy (ball s) = 0 \<longrightarrow>
            vx (ball (wall_step d s w)) = - vx (ball s) \<and> vy (ball (wall_step d s w)) = 0)"
proof -
  have b: "ball (wall_step d s w) = bounce a (ball s)"
    using assms by (simp add: wall_step_def)
  show ?thesis
    unfolding b using bounce_velocity[of a "ball s"] bounce_speed[of a "ball s"]
      bounce_horizontal[of a "ball s"] by blast
qed

section \<open>The pull of a force\<close>

lemma force_acceleration_magnitude:
  assumes "distanceSquared (normalizePoint (ball s) (canvas s) (center s))
                           (normalizePoint f (canvas s) (center s)) \<noteq> 0"
  shows "sqrt ((px (force_acceleration s f))\<^sup>2 + (py (force_acceleration s f))\<^sup>2) =
         \<bar>clamp (- 5000) 5000
            (of_int (direction f) * 100000000 /
             distanceSquared (normalizePoint (ball s) (canvas s) (center s))
                             (normalizePoint f (canvas s) (center s)))\<bar>"
proof -
  let ?b = "normalizePoint (ball s) (canvas s) (center s)"
  let ?f = "normalizePoint f (canvas s) (center s)"
  have ne: "distanceSquared ?f ?b \<noteq> 0"
    using assms by (simp add: distanceSquared_commute[of ?f ?b])
  have "force_acceleration s f =
        splitHypotenuse ?f ?b (sqrt (distanceSquared ?f ?b))
          (clamp (- 5000) 5000 (of_int (direction f) * 100000000 / distanceSquared ?b ?f))"
    by (simp add: force_acceleration_def Let_def distanceSquared_commute[of ?f ?b])
  then show ?thesis
    using splitHypotenuse_magnitude[OF ne] by simp
qed

text \<open>
  C5. For a force at nonzero distance from the ball, the step of the loop adds
  \<open>acceleration * delta\<close> to the velocity, where the acceleration vector has the
  magnitude \<open>|clamp(-5000, 5000, direction * 100000000 / r\<^sup>2)|\<close>, which is at most 5000,
  whatever the direction and however small the distance.
\<close>

theorem force_step_magnitude_clamped:
  assumes "distanceSquared (normalizePoint (ball s) (canvas s) (center s))
                           (normalizePoint (store s r) (canvas s) (center s)) \<noteq> 0"
  shows "vx (ball (force_step delta s r)) =
           vx (ball s) + px (force_acceleration s (store s r)) * delta \<and>
         vy (ball (force_step delta s r)) =
           vy (ball s) + py (force_acceleration s (store s r)) * delta \<and>
         sqrt ((px (force_acceleration s (store s r)))\<^sup>2 +
               (py (force_acceleration s (store s r)))\<^sup>2) =
           \<bar>clamp (- 5000) 5000
              (of_int (direction (store s r)) * 100000000 /
               distanceSquared (normalizePoint (ball s) (canvas s) (center s))
                               (normalizePoint (store s r) (canvas s) (center s)))\<bar> \<and>
         sqrt ((px (force_acceleration s (store s r)))\<^sup>2 +
               (py (force_acceleration s (store s r)))\<^sup>2) \<le> 5000"
proof -
  have v: "vx (ball (force_step delta s r)) =
             vx (ball s) + px (force_acceleration s (store s r)) * delta \<and>
           vy (ball (force_step delta s r)) =
             vy (ball s) + py (force_acceleration s (store s r)) * delta"
    by (simp add: force_step_def Let_def)
  have "\<bar>clamp (- 5000) 5000 v\<bar> \<le> 5000" for v
    using clamp_bound[of "- 5000" 5000 v] by linarith
  then show ?thesis
    using v force_acceleration_magnitude[OF assms] by simp
qed

lemma demo_scene_fields:
  "ball demo_scene = \<lparr>px = 0, py = 0, radius = 10, vx = 0, vy = 0\<rparr>"
  "hole demo_scene = \<lparr>px = 300, py = 0, radius = 20\<rparr>"
  "canvas demo_scene = demo_canvas"
  "center demo_scene = \<lparr>px = 0, py = 0\<rparr>"
  "forces demo_scene = [0, 1]"
  "store demo_scene 0 = \<lparr>px = - 100, py = 0, direction = 1\<rparr>"
  "store demo_scene (Suc 0) = \<lparr>px = 100, py = 100, direction = 1\<rparr>"
  "hit demo_scene = False"
  "devicePixelRatio demo_scene = 1"
  "mouseStart demo_scene = None"
  "mouseCurrent demo_scene = None"
  "emitted demo_scene = [(2, 0)]"
  "alerts demo_scene = []"
  "navigations demo_scene = []"
  "frame demo_scene = Some 1"
  "pending demo_scene = {1}"
  "next_frame demo_scene = 2"
  by (simp_all add: demo_scene_def construct_def Let_def clear_def reset_def allocate_def
      dispatchForces_def addEventListener_def requestAnimationFrame_def demo_level_def
      default_forces_def force_counts_def upt_rec)

theorem wall_bounce_preserves_speed_witness:
  "collision demo_wall_deps
     (normalizePoint (ball demo_moving) (canvas demo_moving) (center demo_moving))
     (normalizeShape demo_wall_deps \<lparr>px = 100, py = 50, width = 20, height = 100\<rparr>
        (canvas demo_moving) (center demo_moving)) = Some 0 \<and>
   vx (ball (wall_step demo_wall_deps demo_moving
              \<lparr>px = 100, py = 50, width = 20, height = 100\<rparr>)) = - 3 \<and>
   vy (ball (wall_step demo_wall_deps demo_moving
              \<lparr>px = 100, py = 50, width = 20, height = 100\<rparr>)) = 0"
proof -
  have h: "collision demo_wall_deps
     (normalizePoint (ball demo_moving) (canvas demo_moving) (center demo_moving))
     (normalizeShape demo_wall_deps \<lparr>px = 100, py = 50, width = 20, height = 100\<rparr>
        (canvas demo_moving) (center demo_moving)) = Some 0"
    by (simp add: demo_wall_deps_def)
  have v: "vx (ball demo_moving) = 3" "vy (ball demo_moving) = 0"
    by (simp_all add: demo_moving_def)
  show ?thesis
    using h wall_bounce_preserves_speed[OF h] v by simp
qed

theorem force_step_magnitude_clamped_witness:
  "distanceSquared (normalizePoint (ball demo_scene) (canvas demo_scene) (center demo_scene))
                   (normalizePoint (store demo_scene 0) (canvas demo_scene) (center demo_scene))
     \<noteq> 0 \<and>
   sqrt ((px (force_acceleration demo_scene (store demo_scene 0)))\<^sup>2 +
         (py (force_acceleration demo_scene (store demo_scene 0)))\<^sup>2) = 5000"
proof -
  have d: "distanceSquared
             (normalizePoint (ball demo_scene) (canvas demo_scene) (center demo_scene))
             (normalizePoint (store demo_scene 0) (canvas demo_scene) (center demo_scene))
           = 10000"
    by (simp add: demo_scene_fields distanceSquared_def normalizePoint_def)
  then have h: "distanceSquared
             (normalizePoint (ball demo_scene) (canvas demo_scene) (center demo_scene))
             (normalizePoint (store demo_scene 0) (canvas demo_scene) (center demo_scene))
           \<noteq> 0"
    by simp
  show ?thesis
    using h force_step_magnitude_clamped[OF h, of 0] d
    by (simp add: demo_scene_fields clamp_def)
qed

section \<open>The frame callback: winning\<close>

lemma walls_loop_keeps:
  "hit (foldl (wall_step d) s ws) = hit s \<and>
   alerts (foldl (wall_step d) s ws) = alerts s \<and>
   navigations (foldl (wall_step d) s ws) = navigations s \<and>
   next_frame (foldl (wall_step d) s ws) = next_frame s \<and>
   pending (foldl (wall_step d) s ws) = pending s"
  by (induction ws arbitrary: s) (simp_all add: wall_step_def split: option.split)

lemma forces_loop_keeps:
  "hit (foldl (force_step delta) s rs) = hit s \<and>
   alerts (foldl (force_step delta) s rs) = alerts s \<and>
   navigations (foldl (force_step delta) s rs) = navigations s \<and>
   next_frame (foldl (force_step delta) s rs) = next_frame s \<and>
   pending (foldl (force_step delta) s rs) = pending s"
  by (induction rs arbitrary: s) (simp_all add: force_step_def Let_def)

lemma integrate_keeps:
  "hit (integrate delta s) = hit s \<and>
   alerts (integrate delta s) = alerts s \<and>
   navigations (integrate delta s) = navigations s \<and>
   frame (integrate delta s) = Some (next_frame s) \<and>
   pending (integrate delta s) = insert (next_frame s) (pending s)"
  by (simp add: integrate_def requestAnimationFrame_def)

lemma in_hole_world:
  "in_hole s \<longleftrightarrow> distance (ball s) (hole s) \<le> radius (hole s) - radius (ball s)"
  by (simp add: in_hole_def distance_normalizePoint)

lemma tick_won:
  assumes "hit s" "in_hole s"
  shows "tick d t s =
           s\<lparr>frame := None, previousTime := Some (t / 1000),
             alerts := alerts s @ [''Congratulations!''],
             navigations := navigations s @
               [if level_id (level s) = int (levels_length d) then Levels
                else LevelsId (level_id (level s) + 1)]\<rparr>"
proof -
  have "in_hole (s\<lparr>frame := None, previousTime := Some (t / 1000)\<rparr>)"
    using assms(2) by (simp add: in_hole_def)
  then show ?thesis
    using assms(1) by (simp add: tick_def Let_def win_def)
qed

lemma tick_not_won:
  assumes "hit s" "\<not> in_hole s"
  shows "alerts (tick d t s) = alerts s \<and> navigations (tick d t s) = navigations s \<and>
         frame (tick d t s) = Some (next_frame s) \<and> next_frame s \<in> pending (tick d t s)"
proof -
  have "\<not> in_hole (s\<lparr>frame := None, previousTime := Some (t / 1000)\<rparr>)"
    using assms(2) by (simp add: in_hole_def)
  then show ?thesis
    using assms(1)
    by (simp add: tick_def Let_def integrate_keeps forces_loop_keeps walls_loop_keeps)
qed

text \<open>
  C3. In a tick with \<open>hit\<close> true, the level is won exactly when the distance of the
  centres of ball and hole is at most \<open>hole.radius - ball.radius\<close>. On a win the tick
  changes nothing but \<open>frame\<close> (now \<open>null\<close>: no new request), \<open>previousTime\<close>, the
  alert and the navigation, whose target is the next level, or the level index when
  the level is the last; so the ball is not moved by walls, forces or integration.
  Otherwise there is no alert and no navigation, and the next frame is requested.
\<close>

theorem tick_wins_iff_ball_contained:
  assumes "hit s"
  shows "distance (normalizePoint (ball s) (canvas s) (center s))
                  (normalizePoint (hole s) (canvas s) (center s)) = distance (ball s) (hole s) \<and>
         (if distance (ball s) (hole s) \<le> radius (hole s) - radius (ball s)
          then tick d t s =
                 s\<lparr>frame := None, previousTime := Some (t / 1000),
                   alerts := alerts s @ [''Congratulations!''],
                   navigations := navigations s @
                     [if level_id (level s) = int (levels_length d) then Levels
                      else LevelsId (level_id (level s) + 1)]\<rparr>
          else alerts (tick d t s) = alerts s \<and> navigations (tick d t s) = navigations s \<and>
               frame (tick d t s) = Some (next_frame s) \<and>
               next_frame s \<in> pending (tick d t s))"
  using tick_won[OF assms, of d t] tick_not_won[OF assms, of d t]
  by (simp add: in_hole_world distance_normalizePoint)

theorem tick_wins_iff_ball_contained_witness:
  "hit demo_in_hole \<and>
   ball (tick demo_deps 16 demo_in_hole) = ball demo_in_hole \<and>
   frame (tick demo_deps 16 demo_in_hole) = None \<and>
   navigations (tick demo_deps 16 demo_in_hole) = [LevelsId 2] \<and>
   hit demo_moving \<and>
   navigations (tick demo_deps 16 demo_moving) = [] \<and>
   frame (tick demo_deps 16 demo_moving) = Some 2"
proof -
  have h1: "hit demo_in_hole" by (simp add: demo_in_hole_def)
  have h2: "hit demo_moving" by (simp add: demo_moving_def)
  have c1: "distance (ball demo_in_hole) (hole demo_in_hole)
              \<le> radius (hole demo_in_hole) - radius (ball demo_in_hole)"
    by (simp add: demo_in_hole_def demo_scene_fields distance_def)
  have c2: "\<not> distance (ball demo_moving) (hole demo_moving)
              \<le> radius (hole demo_moving) - radius (ball demo_moving)"
    by (simp add: demo_moving_def demo_scene_fields distance_def)
  have l: "level demo_in_hole = demo_level" "navigations demo_in_hole = []"
    "navigations demo_moving = []" "next_frame demo_moving = 2"
    by (simp_all add: demo_in_hole_def demo_moving_def level_demo_scene demo_scene_fields)
  have w: "tick demo_deps 16 demo_in_hole =
           demo_in_hole\<lparr>frame := None, previousTime := Some (16 / 1000),
             alerts := alerts demo_in_hole @ [''Congratulations!''],
             navigations := navigations demo_in_hole @
               [if level_id (level demo_in_hole) = int (levels_length demo_deps) then Levels
                else LevelsId (level_id (level demo_in_hole) + 1)]\<rparr>"
    using tick_wins_iff_ball_contained[OF h1, of demo_deps 16] c1 by simp
  have n: "navigations (tick demo_deps 16 demo_moving) = navigations demo_moving \<and>
           frame (tick demo_deps 16 demo_moving) = Some (next_frame demo_moving)"
    using tick_wins_iff_ball_contained[OF h2, of demo_deps 16] c2 by simp
  have b: "ball (tick demo_deps 16 demo_in_hole) = ball demo_in_hole"
    "frame (tick demo_deps 16 demo_in_hole) = None"
    "navigations (tick demo_deps 16 demo_in_hole) =
       navigations demo_in_hole @
         [if level_id (level demo_in_hole) = int (levels_length demo_deps) then Levels
          else LevelsId (level_id (level demo_in_hole) + 1)]"
    by (simp_all add: w)
  show ?thesis
    using h1 h2 n l b by (simp add: demo_level_def demo_deps_def)
qed

section \<open>Pointer up: the shot\<close>

lemma up_shot:
  assumes "\<not> hit s" "mouseStart s = Some ms" "button ms = 0"
    "px (mouse_of s offsetX offsetY) = px ms" "py (mouse_of s offsetX offsetY) = py ms"
  shows "hit (up offsetX offsetY s) \<and>
         ball (up offsetX offsetY s) =
           (ball s)\<lparr>vx := px (splitHypotenuse (mouse_of s offsetX offsetY)
                           (normalizePoint (ball s) (canvas s) (center s))
                           (distance (mouse_of s offsetX offsetY)
                              (normalizePoint (ball s) (canvas s) (center s)))
                           (min (distance (mouse_of s offsetX offsetY)
                              (normalizePoint (ball s) (canvas s) (center s)) / MAX_DISTANCE) 1
                            * MAX_VELOCITY)),
                    vy := py (splitHypotenuse (mouse_of s offsetX offsetY)
                           (normalizePoint (ball s) (canvas s) (center s))
                           (distance (mouse_of s offsetX offsetY)
                              (normalizePoint (ball s) (canvas s) (center s)))
                           (min (distance (mouse_of s offsetX offsetY)
                              (normalizePoint (ball s) (canvas s) (center s)) / MAX_DISTANCE) 1
                            * MAX_VELOCITY))\<rparr>"
  using assms by (simp add: up_def Let_def hit_the_ball_def)

text \<open>
  C6. A release of the primary button at the position of the press, at a distance
  \<open>dst\<close> that is not zero from the normalised centre of the ball, sets \<open>hit\<close> and gives
  the ball the velocity of magnitude \<open>min (dst / 800) 1 * 500\<close> along the vector from the
  pointer to the ball. From \<open>MAX_DISTANCE\<close> on the speed is \<open>MAX_VELOCITY\<close>, and at half of
  \<open>MAX_DISTANCE\<close> it is half of \<open>MAX_VELOCITY\<close>.
\<close>

theorem up_primary_click_launches:
  assumes "\<not> hit s" and "mouseStart s = Some ms" and "button ms = 0"
    and "mouse = mouse_of s offsetX offsetY"
    and "px mouse = px ms" and "py mouse = py ms"
    and "nb = normalizePoint (ball s) (canvas s) (center s)"
    and "dst = distance mouse nb" and "dst \<noteq> 0"
  shows "hit (up offsetX offsetY s) \<and>
         vx (ball (up offsetX offsetY s)) = (px nb - px mouse) / dst * (min (dst / 800) 1 * 500) \<and>
         vy (ball (up offsetX offsetY s)) = (py nb - py mouse) / dst * (min (dst / 800) 1 * 500) \<and>
         sqrt ((vx (ball (up offsetX offsetY s)))\<^sup>2 + (vy (ball (up offsetX offsetY s)))\<^sup>2)
           = min (dst / 800) 1 * 500 \<and>
         (MAX_DISTANCE \<le> dst \<longrightarrow>
            sqrt ((vx (ball (up offsetX offsetY s)))\<^sup>2 + (vy (ball (up offsetX offsetY s)))\<^sup>2)
              = MAX_VELOCITY) \<and>
         (dst = MAX_DISTANCE / 2 \<longrightarrow>
            sqrt ((vx (ball (up offsetX offsetY s)))\<^sup>2 + (vy (ball (up offsetX offsetY s)))\<^sup>2)
              = MAX_VELOCITY / 2)"
proof -
  let ?m = "min (dst / 800) 1 * 500"
  let ?v = "splitHypotenuse mouse nb dst ?m"
  have u: "hit (up offsetX offsetY s)" "ball (up offsetX offsetY s) = (ball s)\<lparr>vx := px ?v, vy := py ?v\<rparr>"
    using up_shot[of s ms offsetX offsetY] assms
    by (simp_all add: MAX_DISTANCE_def MAX_VELOCITY_def)
  have vel: "vx (ball (up offsetX offsetY s)) = (px nb - px mouse) / dst * ?m"
    "vy (ball (up offsetX offsetY s)) = (py nb - py mouse) / dst * ?m"
    by (simp_all add: u(2) splitHypotenuse_def)
  have d: "dst = sqrt (distanceSquared mouse nb)"
    using assms(8) by (simp add: distance_sqrt)
  then have ne: "distanceSquared mouse nb \<noteq> 0"
    using assms(9) by auto
  have pos: "0 \<le> dst" unfolding d by (simp add: distanceSquared_def)
  have "sqrt ((px ?v)\<^sup>2 + (py ?v)\<^sup>2) = \<bar>?m\<bar>"
    unfolding d using splitHypotenuse_magnitude[OF ne] by simp
  moreover have "0 \<le> ?m" using pos by simp
  ultimately have sp:
    "sqrt ((vx (ball (up offsetX offsetY s)))\<^sup>2 + (vy (ball (up offsetX offsetY s)))\<^sup>2) = ?m"
    by (simp add: u(2))
  have far: "MAX_DISTANCE \<le> dst \<longrightarrow> ?m = MAX_VELOCITY"
    by (simp add: MAX_DISTANCE_def MAX_VELOCITY_def min_def)
  have half: "dst = MAX_DISTANCE / 2 \<longrightarrow> ?m = MAX_VELOCITY / 2"
    by (simp add: MAX_DISTANCE_def MAX_VELOCITY_def min_def)
  show ?thesis
    unfolding sp using u(1) vel far half by blast
qed

lemma demo_pressed_fields:
  "hit demo_pressed = False"
  "mouseStart demo_pressed = Some \<lparr>px = 0, py = 300, button = 0\<rparr>"
  "ball demo_pressed = \<lparr>px = 0, py = 0, radius = 10, vx = 0, vy = 0\<rparr>"
  "canvas demo_pressed = demo_canvas"
  "center demo_pressed = \<lparr>px = 0, py = 0\<rparr>"
  "devicePixelRatio demo_pressed = 1"
  by (simp_all add: demo_pressed_def down_def Let_def mouse_of_def demo_scene_fields)

lemma sqrt_160000: "sqrt 160000 = 400"
  using real_sqrt_abs[of 400] by simp

theorem up_primary_click_launches_witness:
  "\<not> hit demo_pressed \<and>
   mouseStart demo_pressed = Some \<lparr>px = 0, py = 300, button = 0\<rparr> \<and>
   mouse_of demo_pressed 0 300 = \<lparr>px = 0, py = 300\<rparr> \<and>
   distance (mouse_of demo_pressed 0 300)
     (normalizePoint (ball demo_pressed) (canvas demo_pressed) (center demo_pressed)) = 400 \<and>
   hit (up 0 300 demo_pressed) \<and>
   vx (ball (up 0 300 demo_pressed)) = 250 \<and>
   vy (ball (up 0 300 demo_pressed)) = 0"
proof -
  have m: "mouse_of demo_pressed 0 300 = \<lparr>px = 0, py = 300\<rparr>"
    by (simp add: mouse_of_def demo_pressed_fields)
  have nb: "normalizePoint (ball demo_pressed) (canvas demo_pressed) (center demo_pressed) =
            \<lparr>px = 400, py = 300, radius = 10, vx = 0, vy = 0\<rparr>"
    by (simp add: normalizePoint_def demo_pressed_fields demo_canvas_def)
  have d: "distance \<lparr>px = 0, py = 300\<rparr>
             \<lparr>px = 400, py = 300, radius = 10, vx = 0, vy = 0\<rparr> = (400 :: real)"
    by (simp add: distance_def sqrt_160000)
  have h: "\<not> hit demo_pressed" by (simp add: demo_pressed_fields)
  show ?thesis
    using up_primary_click_launches[of demo_pressed "\<lparr>px = 0, py = 300, button = 0\<rparr>"
        "\<lparr>px = 0, py = 300\<rparr>" 0 300 "\<lparr>px = 400, py = 300, radius = 10, vx = 0, vy = 0\<rparr>" 400]
      h m nb d
    by (simp add: demo_pressed_fields)
qed

section \<open>Pointer up: removing a force\<close>

lemma remove_force_effect:
  "forces (remove_force mouse r s) = (if r \<in> set (forces s) then remove1 r (forces s) else forces s) \<and>
   emitted (remove_force mouse r s) =
     (if r \<in> set (forces s)
      then emitted s @ [force_counts (map (store s) (remove1 r (forces s)))]
      else emitted s) \<and>
   store (remove_force mouse r s) = store s \<and>
   hit (remove_force mouse r s) = hit s \<and>
   ball (remove_force mouse r s) = ball s"
  by (simp add: remove_force_def updateCursor_def dispatchForces_def)

lemma up_secondary_removes:
  assumes "\<not> hit s" "mouseStart s = Some ms" "button ms = 2"
    "mouseCurrent s = Some mc" "force mc = Some r"
    "mouseOnForce s (mouse_of s offsetX offsetY) (store s r)" "r \<in> set (forces s)"
  shows "forces (up offsetX offsetY s) = remove1 r (forces s) \<and>
         emitted (up offsetX offsetY s) =
           emitted s @ [force_counts (map (store s) (remove1 r (forces s)))]"
  using assms by (simp add: up_def Let_def remove_force_effect)

lemma up_secondary_keeps:
  assumes "\<not> hit s" "mouseStart s = Some ms" "button ms = 2"
    "\<not> (\<exists>mc r. mouseCurrent s = Some mc \<and> force mc = Some r \<and>
            mouseOnForce s (mouse_of s offsetX offsetY) (store s r) \<and> r \<in> set (forces s))"
  shows "forces (up offsetX offsetY s) = forces s \<and>
         emitted (up offsetX offsetY s) = emitted s \<and>
         store (up offsetX offsetY s) = store s"
  using assms by (auto simp: up_def Let_def remove_force_effect split: option.split)

text \<open>
  A press of the secondary button on a force, followed by a release at the same place,
  removes the force that the press found, with one notification.
\<close>

lemma secondary_click_on_force_removes:
  assumes "\<not> hit s"
    "find (\<lambda>r. distance (normalizePoint (store s r) (canvas s) (center s))
                  (mouse_of s offsetX offsetY) \<le> FORCE_RADIUS) (forces s) = Some r"
  shows "forces (up offsetX offsetY (down offsetX offsetY 2 s)) = remove1 r (forces s) \<and>
         emitted (up offsetX offsetY (down offsetX offsetY 2 s)) =
           emitted s @ [force_counts (map (store s) (remove1 r (forces s)))]"
proof -
  let ?s = "down offsetX offsetY 2 s"
  let ?m = "mouse_of s offsetX offsetY"
  have on: "distance (normalizePoint (store s r) (canvas s) (center s)) ?m \<le> FORCE_RADIUS"
    and mem: "r \<in> set (forces s)"
    using assms(2) by (auto simp: find_Some_iff)
  have f: "hit ?s = hit s" "forces ?s = forces s" "store ?s = store s" "emitted ?s = emitted s"
    "mouse_of ?s offsetX offsetY = ?m"
    "mouseStart ?s = Some \<lparr>px = px ?m, py = py ?m, button = 2\<rparr>"
    "mouseCurrent ?s = Some \<lparr>px = px ?m, py = py ?m, force = Some r\<rparr>"
    "canvas ?s = canvas s" "center ?s = center s"
    using assms(2) by (simp_all add: down_def Let_def mouse_of_def)
  have "mouseOnForce ?s (mouse_of ?s offsetX offsetY) (store ?s r)"
    using on by (simp add: mouseOnForce_def f)
  then show ?thesis
    using up_secondary_removes[of ?s "\<lparr>px = px ?m, py = py ?m, button = 2\<rparr>"
        "\<lparr>px = px ?m, py = py ?m, force = Some r\<rparr>" r offsetX offsetY] assms(1) mem
    by (simp add: f)
qed

text \<open>
  C2, as the code has it. In a pointer-up with \<open>hit\<close> false after a press of the
  secondary button: when the gesture has a force, the release position is within
  \<open>FORCE_RADIUS\<close> of the normalised centre of that force, and the force is still in the
  collection, then the force is removed (its first entry) and one notification with the
  new counts is emitted; in every other case the collection, the force objects and the
  log of notifications are unchanged. Whether the release is at the position of the
  press plays no part.
\<close>

theorem up_secondary_removes_force_under_pointer:
  assumes "\<not> hit s" and "mouseStart s = Some ms" and "button ms = 2"
  shows "(mouseCurrent s = Some mc \<and> force mc = Some r \<and>
          mouseOnForce s (mouse_of s offsetX offsetY) (store s r) \<and> r \<in> set (forces s) \<longrightarrow>
            forces (up offsetX offsetY s) = remove1 r (forces s) \<and>
            emitted (up offsetX offsetY s) =
              emitted s @ [force_counts (map (store s) (remove1 r (forces s)))]) \<and>
         (\<not> (\<exists>mc r. mouseCurrent s = Some mc \<and> force mc = Some r \<and>
                mouseOnForce s (mouse_of s offsetX offsetY) (store s r) \<and>
                r \<in> set (forces s)) \<longrightarrow>
            forces (up offsetX offsetY s) = forces s \<and>
            emitted (up offsetX offsetY s) = emitted s \<and>
            store (up offsetX offsetY s) = store s)"
  using up_secondary_removes[OF assms, of mc r offsetX offsetY]
    up_secondary_keeps[OF assms, of offsetX offsetY]
  by blast

lemma demo_right_pressed_fields:
  "hit demo_right_pressed = False"
  "mouseStart demo_right_pressed = Some \<lparr>px = 300, py = 300, button = 2\<rparr>"
  "mouseCurrent demo_right_pressed = Some \<lparr>px = 300, py = 300, force = Some 0\<rparr>"
  "forces demo_right_pressed = [0, 1]"
  "store demo_right_pressed 0 = \<lparr>px = - 100, py = 0, direction = 1\<rparr>"
  "store demo_right_pressed (Suc 0) = \<lparr>px = 100, py = 100, direction = 1\<rparr>"
  "emitted demo_right_pressed = [(2, 0)]"
  "canvas demo_right_pressed = demo_canvas"
  "center demo_right_pressed = \<lparr>px = 0, py = 0\<rparr>"
  "devicePixelRatio demo_right_pressed = 1"
  by (simp_all add: demo_right_pressed_def down_def Let_def mouse_of_def demo_scene_fields
      normalizePoint_def distance_def demo_canvas_def FORCE_RADIUS_def)

lemma demo_release_on_force:
  "mouse_of demo_right_pressed 301 300 = \<lparr>px = 301, py = 300\<rparr>"
  "mouseOnForce demo_right_pressed \<lparr>px = 301, py = 300\<rparr>
     \<lparr>px = - 100, py = 0, direction = 1\<rparr>"
  by (simp_all add: mouse_of_def mouseOnForce_def demo_right_pressed_fields demo_scene_fields
      normalizePoint_def distance_def demo_canvas_def FORCE_RADIUS_def)

text \<open>
  The claim C2 fails where it says that no other release of the secondary button removes
  a force: the press is at \<open>(300, 300)\<close>, the release at \<open>(301, 300)\<close>, and the force
  is removed and a notification emitted.
\<close>

theorem secondary_release_after_drag_removes_force:
  "\<not> hit demo_right_pressed \<and>
   mouseStart demo_right_pressed = Some \<lparr>px = 300, py = 300, button = 2\<rparr> \<and>
   mouse_of demo_right_pressed 301 300 = \<lparr>px = 301, py = 300\<rparr> \<and>
   forces demo_right_pressed = [0, 1] \<and>
   forces (up 301 300 demo_right_pressed) = [1] \<and>
   emitted demo_right_pressed = [(2, 0)] \<and>
   emitted (up 301 300 demo_right_pressed) = [(2, 0), (1, 0)]"
  using up_secondary_removes[of demo_right_pressed "\<lparr>px = 300, py = 300, button = 2\<rparr>"
      "\<lparr>px = 300, py = 300, force = Some 0\<rparr>" 0 301 300]
  by (simp add: demo_right_pressed_fields demo_release_on_force demo_scene_fields force_counts_def)

theorem up_secondary_removes_force_under_pointer_witness:
  "\<not> hit demo_right_pressed \<and>
   mouseStart demo_right_pressed = Some \<lparr>px = 300, py = 300, button = 2\<rparr> \<and>
   mouseCurrent demo_right_pressed = Some \<lparr>px = 300, py = 300, force = Some 0\<rparr> \<and>
   mouseOnForce demo_right_pressed (mouse_of demo_right_pressed 301 300)
     (store demo_right_pressed 0) \<and>
   0 \<in> set (forces demo_right_pressed) \<and>
   forces (up 301 300 demo_right_pressed) = [1] \<and>
   mouseCurrent demo_scene = None \<and>
   forces (up 301 300 (demo_scene\<lparr>mouseStart := Some \<lparr>px = 300, py = 300, button = 2\<rparr>\<rparr>))
     = [0, 1]"
proof -
  let ?s = "demo_scene\<lparr>mouseStart := Some \<lparr>px = 300, py = 300, button = 2\<rparr>\<rparr>"
  have a: "\<not> hit demo_right_pressed"
    "mouseStart demo_right_pressed = Some \<lparr>px = 300, py = 300, button = 2\<rparr>"
    "button \<lparr>px = 300, py = 300, button = 2\<rparr> = 2"
    by (simp_all add: demo_right_pressed_fields)
  have b: "\<not> hit ?s" "mouseStart ?s = Some \<lparr>px = 300, py = 300, button = 2\<rparr>"
    "mouseCurrent ?s = None" "forces ?s = [0, 1]"
    by (simp_all add: demo_scene_fields)
  have "forces (up 301 300 demo_right_pressed) = remove1 0 (forces demo_right_pressed)"
    using up_secondary_removes_force_under_pointer[OF a,
        of "\<lparr>px = 300, py = 300, force = Some 0\<rparr>" 0 301 300]
    by (simp add: demo_right_pressed_fields demo_release_on_force)
  moreover have "forces (up 301 300 ?s) = forces ?s"
    using up_secondary_removes_force_under_pointer[OF b(1) b(2) a(3), of _ _ 301 300] b(3)
    by simp
  ultimately show ?thesis
    using a b by (simp add: demo_right_pressed_fields demo_release_on_force demo_scene_fields)
qed

section \<open>Setup mode: the ball is at rest\<close>

text \<open>What each operation does to \<open>hit\<close> and to the ball.\<close>

lemma clear_at_rest:
  "hit (clear s) = False \<and> vx (ball (clear s)) = 0 \<and> vy (ball (clear s)) = 0"
  by (simp add: clear_def Let_def dispatchForces_def reset_def allocate_def)

lemma construct_at_rest:
  "hit (construct cv dpr l) = False \<and> vx (ball (construct cv dpr l)) = 0 \<and>
   vy (ball (construct cv dpr l)) = 0"
  by (simp add: construct_def Let_def addEventListener_def requestAnimationFrame_def
      clear_def dispatchForces_def reset_def allocate_def)

lemma addForce_keeps: "hit (addForce p dir s) = hit s \<and> ball (addForce p dir s) = ball s"
  by (simp add: addForce_def Let_def dispatchForces_def allocate_def)

lemma destroy_keeps: "hit (destroy s) = hit s \<and> ball (destroy s) = ball s"
  by (simp add: destroy_alt)

lemma down_keeps: "hit (down ox oy b s) = hit s \<and> ball (down ox oy b s) = ball s"
  by (simp add: down_def Let_def)

lemma move_keeps: "hit (move ox oy s) = hit s \<and> ball (move ox oy s) = ball s"
  by (simp add: move_def Let_def updateCursor_def drag_def split: option.split)

lemma up_hits_or_keeps:
  "hit (up ox oy s) \<or> (hit (up ox oy s) = hit s \<and> ball (up ox oy s) = ball s)"
  by (simp add: up_def Let_def hit_the_ball_def remove_force_effect split: option.split)

lemma tick_hit: "hit (tick d t s) = hit s"
  by (simp add: tick_def Let_def win_def integrate_keeps forces_loop_keeps walls_loop_keeps)

lemma tick_setup:
  assumes "\<not> hit s" "vx (ball s) = 0" "vy (ball s) = 0"
  shows "ball (tick d t s) = ball s"
  using assms by (simp add: tick_def Let_def integrate_def requestAnimationFrame_def)

lemma handle_at_rest:
  assumes "hit s \<or> (vx (ball s) = 0 \<and> vy (ball s) = 0)"
  shows "hit (handle d e s) \<or> (vx (ball (handle d e s)) = 0 \<and> vy (ball (handle d e s)) = 0)"
proof (cases e)
  case (ResizeEvent w h)
  then show ?thesis using assms by simp
next
  case (KeydownEvent k)
  then show ?thesis using assms by (simp add: key_def reset_def)
next
  case (MousedownEvent ox oy b)
  then show ?thesis using assms by (simp add: down_keeps)
next
  case (MousemoveEvent ox oy)
  then show ?thesis using assms by (simp add: move_keeps)
next
  case (MouseupEvent ox oy)
  then show ?thesis using assms up_hits_or_keeps[of ox oy s] by auto
next
  case ContextmenuEvent
  then show ?thesis using assms by simp
next
  case (FrameEvent h t)
  let ?s = "s\<lparr>pending := pending s - {h}\<rparr>"
  show ?thesis
  proof (cases "hit s")
    case True
    then show ?thesis using FrameEvent by (simp add: tick_hit)
  next
    case False
    then have "ball (tick d t ?s) = ball ?s"
      using assms by (intro tick_setup) simp_all
    then show ?thesis using FrameEvent False assms by simp
  qed
qed

lemma reachable_at_rest:
  "reachable d s \<Longrightarrow> hit s \<or> (vx (ball s) = 0 \<and> vy (ball s) = 0)"
proof (induction rule: reachable.induct)
  case (constructed cv dpr l)
  then show ?case by (simp add: construct_at_rest)
next
  case (delivered s e)
  then show ?case using handle_at_rest[of s d e] by (simp add: deliver_def)
next
  case (called_reset s)
  then show ?case by (simp add: reset_def)
next
  case (called_clear s)
  then show ?case by (simp add: clear_at_rest)
next
  case (called_addForce s p dir)
  then show ?case by (simp add: addForce_keeps)
next
  case (called_destroy s)
  then show ?case by (simp add: destroy_keeps)
qed

text \<open>
  C10. In every state the scene can reach, \<open>hit\<close> false implies that both components
  of the velocity are zero, so a tick in setup mode leaves the ball where it is (and
  leaves \<open>hit\<close> false). \<open>reset\<close> and \<open>clear\<close> establish velocity zero together with
  \<open>hit\<close> false, and a pointer-up that changes the ball sets \<open>hit\<close>.
\<close>

theorem setup_mode_ball_at_rest:
  assumes "reachable d s" and "\<not> hit s"
  shows "vx (ball s) = 0 \<and> vy (ball s) = 0 \<and>
         ball (tick d t s) = ball s \<and> \<not> hit (tick d t s) \<and>
         \<not> hit (reset s') \<and> vx (ball (reset s')) = 0 \<and> vy (ball (reset s')) = 0 \<and>
         \<not> hit (clear s') \<and> vx (ball (clear s')) = 0 \<and> vy (ball (clear s')) = 0 \<and>
         (ball (up offsetX offsetY s') \<noteq> ball s' \<longrightarrow> hit (up offsetX offsetY s'))"
proof -
  have v: "vx (ball s) = 0" "vy (ball s) = 0"
    using reachable_at_rest[OF assms(1)] assms(2) by simp_all
  have "ball (tick d t s) = ball s"
    using assms(2) v by (rule tick_setup)
  moreover have "\<not> hit (tick d t s)"
    using assms(2) by (simp add: tick_hit)
  moreover have "\<not> hit (reset s') \<and> vx (ball (reset s')) = 0 \<and> vy (ball (reset s')) = 0"
    by (simp add: reset_def)
  moreover have "ball (up offsetX offsetY s') \<noteq> ball s' \<longrightarrow> hit (up offsetX offsetY s')"
    using up_hits_or_keeps[of offsetX offsetY s'] by blast
  ultimately show ?thesis
    using v clear_at_rest[of s'] by simp
qed

theorem setup_mode_ball_at_rest_witness:
  "reachable demo_deps demo_scene \<and> \<not> hit demo_scene \<and>
   vx (ball demo_scene) = 0 \<and> vy (ball demo_scene) = 0 \<and>
   ball (tick demo_deps 16 demo_scene) = \<lparr>px = 0, py = 0, radius = 10, vx = 0, vy = 0\<rparr>"
proof -
  have r: "reachable demo_deps demo_scene"
    unfolding demo_scene_def by (rule reachable.constructed)
  have h: "\<not> hit demo_scene" by (simp add: demo_scene_fields)
  show ?thesis
    using r h setup_mode_ball_at_rest[OF r h, of 16] by (simp add: demo_scene_fields)
qed

section \<open>Scheduled frames\<close>

text \<open>
  At most one frame is scheduled, its handle is the field \<open>frame\<close>, and it is not zero;
  so the test \<open>if (this.frame)\<close> of \<open>destroy\<close> cancels whatever is scheduled.
\<close>

lemma tick_pending:
  assumes "pending s = {}" "next_frame s \<noteq> 0"
  shows "(\<forall>h \<in> pending (tick d t s). frame (tick d t s) = Some h \<and> h \<noteq> 0) \<and>
         next_frame (tick d t s) \<noteq> 0"
  using assms
  by (simp add: tick_def Let_def win_def integrate_def requestAnimationFrame_def
      forces_loop_keeps walls_loop_keeps)

lemma handle_pending:
  assumes "\<forall>h \<in> pending s. frame s = Some h \<and> h \<noteq> 0" "next_frame s \<noteq> 0" "fires e s"
  shows "(\<forall>h \<in> pending (handle d e s). frame (handle d e s) = Some h \<and> h \<noteq> 0) \<and>
         next_frame (handle d e s) \<noteq> 0"
proof (cases e)
  case (ResizeEvent w h)
  then show ?thesis using assms by simp
next
  case (KeydownEvent k)
  then show ?thesis using assms by (simp add: key_def reset_def)
next
  case (MousedownEvent ox oy b)
  then show ?thesis using assms by (simp add: down_def Let_def)
next
  case (MousemoveEvent ox oy)
  then show ?thesis
    using assms by (simp add: move_def Let_def updateCursor_def drag_def split: option.split)
next
  case (MouseupEvent ox oy)
  then show ?thesis
    using assms
    by (simp add: up_def Let_def hit_the_ball_def remove_force_def updateCursor_def
        dispatchForces_def split: option.split)
next
  case ContextmenuEvent
  then show ?thesis using assms by simp
next
  case (FrameEvent h t)
  then have mem: "h \<in> pending s" using assms(3) by simp
  then have eq: "frame s = Some h" using assms(1) by blast
  have "pending s \<subseteq> {h}"
  proof
    fix k assume "k \<in> pending s"
    then have "frame s = Some k" using assms(1) by blast
    with eq show "k \<in> {h}" by simp
  qed
  then have "pending s - {h} = {}" by blast
  then have "pending (s\<lparr>pending := pending s - {h}\<rparr>) = {}"
    "next_frame (s\<lparr>pending := pending s - {h}\<rparr>) \<noteq> 0"
    using assms(2) by simp_all
  then show ?thesis unfolding FrameEvent handle.simps by (rule tick_pending)
qed

lemma reachable_pending:
  "reachable d s \<Longrightarrow> (\<forall>h \<in> pending s. frame s = Some h \<and> h \<noteq> 0) \<and> next_frame s \<noteq> 0"
proof (induction rule: reachable.induct)
  case (constructed cv dpr l)
  then show ?case
    by (simp add: construct_def Let_def addEventListener_def requestAnimationFrame_def
        clear_def dispatchForces_def reset_def allocate_def)
next
  case (delivered s e)
  then show ?case using handle_pending[of s e d] by (simp add: deliver_def)
next
  case (called_reset s)
  then show ?case by (simp add: reset_def)
next
  case (called_clear s)
  then show ?case by (simp add: clear_def Let_def dispatchForces_def reset_def allocate_def)
next
  case (called_addForce s p dir)
  then show ?case by (simp add: addForce_def Let_def dispatchForces_def allocate_def)
next
  case (called_destroy s)
  then show ?case by (auto simp: destroy_alt split: option.splits)
qed

text \<open>After \<open>destroy\<close> no frame is scheduled, so the host runs no further tick.\<close>

lemma destroy_leaves_no_frame:
  assumes "reachable d s"
  shows "pending (destroy s) = {} \<and> \<not> fires (FrameEvent h t) (destroy s)"
proof -
  have "pending (destroy s) = {}"
    using reachable_pending[OF assms] by (auto simp: destroy_alt split: option.splits)
  then show ?thesis by simp
qed

end
